theory Spec2Isabelle
  imports Main "HOL-Library.Word"
begin

section \<open>Python values used by \<open>file_parser.py\<close>\<close>

text \<open>
  A Python \<open>str\<close> is a sequence of Unicode code points, and \<open>len\<close>, slicing and
  \<open>rfind\<close> count code points. It is modelled as a list of code-point numbers, so that the
  full-width separators of the chunker (U+3002, U+FF01, U+FF1F) are single elements.
  A \<open>bytes\<close> object is a list of 8-bit words.
\<close>

type_synonym pystr = "nat list"
type_synonym pybytes = "8 word list"

text \<open>ASCII literals are written as HOL strings and converted code point by code point.\<close>

definition ascii :: "string \<Rightarrow> pystr" where
  "ascii s = map of_char s"

text \<open>
  \<open>str.isspace\<close> for one code point: the 29 code points CPython treats as whitespace
  (\<open>Py_UNICODE_ISSPACE\<close>); \<open>str.strip()\<close> removes them from both ends.
\<close>

definition isspace :: "nat \<Rightarrow> bool" where
  "isspace c \<longleftrightarrow>
     (0x09 \<le> c \<and> c \<le> 0x0D) \<or> (0x1C \<le> c \<and> c \<le> 0x20) \<or> c = 0x85 \<or> c = 0xA0 \<or>
     c = 0x1680 \<or> (0x2000 \<le> c \<and> c \<le> 0x200A) \<or> c = 0x2028 \<or> c = 0x2029 \<or>
     c = 0x202F \<or> c = 0x205F \<or> c = 0x3000"

definition py_strip :: "pystr \<Rightarrow> pystr" where
  "py_strip s = rev (dropWhile isspace (rev (dropWhile isspace s)))"

text \<open>
  \<open>s[lo:hi]\<close>: a negative index counts from the end, and both indices are clamped to
  \<open>0 .. len(s)\<close>; the slice is empty when the clamped bounds cross.
\<close>

definition slice_index :: "nat \<Rightarrow> int \<Rightarrow> nat" where
  "slice_index n i = (if i < 0 then nat (max (i + int n) 0) else min (nat i) n)"

definition py_slice :: "pystr \<Rightarrow> int \<Rightarrow> int \<Rightarrow> pystr" where
  "py_slice s lo hi =
     (let a = slice_index (length s) lo; b = slice_index (length s) hi
      in take (b - a) (drop a s))"

text \<open>\<open>s.rfind(sub)\<close>: the highest index at which \<open>sub\<close> occurs in \<open>s\<close>, or \<open>-1\<close>.\<close>

definition occurs_at :: "pystr \<Rightarrow> pystr \<Rightarrow> nat \<Rightarrow> bool" where
  "occurs_at s sub i \<longleftrightarrow> take (length sub) (drop i s) = sub"

definition py_rfind :: "pystr \<Rightarrow> pystr \<Rightarrow> int" where
  "py_rfind s sub =
     (case filter (occurs_at s sub) (rev [0..<Suc (length s) - length sub]) of
        [] \<Rightarrow> - 1
      | i # _ \<Rightarrow> int i)"

text \<open>\<open>sep.join(parts)\<close>.\<close>

fun py_join :: "pystr \<Rightarrow> pystr list \<Rightarrow> pystr" where
  "py_join sep [] = []"
| "py_join sep [x] = x"
| "py_join sep (x # y # ys) = x @ sep @ py_join sep (y # ys)"

section \<open>The chunker: \<open>split_text_into_chunks\<close>\<close>

text \<open>
  The separator list of the \<open>for\<close> loop (line 175), in the source's order:
  the full-width full stop, exclamation mark and question mark; \<open>.\<close>, \<open>!\<close>, \<open>?\<close> before a
  newline; a blank line; \<open>.\<close>, \<open>!\<close>, \<open>?\<close> before a space.
\<close>

definition separators :: "pystr list" where
  "separators =
     [ [0x3002], [0xFF01], [0xFF1F], [0x2E, 0x0A], [0x21, 0x0A], [0x3F, 0x0A],
       [0x0A, 0x0A], [0x2E, 0x20], [0x21, 0x20], [0x3F, 0x20] ]"

text \<open>
  The test \<open>last_sep > chunk_size * 0.3\<close> (line 177) compares an integer with a double.
  For \<open>chunk_size\<close> below \<open>2 ^ 50\<close> the rounded product lies on the same side of every
  integer as the exact value \<open>3 * chunk_size / 10\<close> (it is exact when \<open>chunk_size\<close> is a
  multiple of ten and off by less than a tenth otherwise), so the test is the integer
  comparison \<open>3 * chunk_size < 10 * last_sep\<close>. Inside the loop \<open>chunk_size\<close> is
  smaller than the length of the text, hence far below that bound.
\<close>

definition accepted :: "int \<Rightarrow> int \<Rightarrow> bool" where
  "accepted chunk_size last_sep \<longleftrightarrow> last_sep \<noteq> - 1 \<and> 3 * chunk_size < 10 * last_sep"

text \<open>
  The test of line 177 for one separator and one window: the rightmost occurrence of the
  separator in the window exists and passes the 30 percent test.
\<close>

definition accepted_in :: "pystr \<Rightarrow> int \<Rightarrow> pystr \<Rightarrow> bool" where
  "accepted_in window chunk_size sep \<longleftrightarrow> accepted chunk_size (py_rfind window sep)"

text \<open>
  The \<open>for sep in [...]\<close> loop (lines 175 to 179): \<open>end\<close> is assigned only immediately
  before \<open>break\<close>, so every search runs on the window \<open>text[start:end]\<close> of the tentative
  end, and the loop returns the end it leaves behind.
\<close>

fun boundary_search :: "pystr \<Rightarrow> int \<Rightarrow> int \<Rightarrow> int \<Rightarrow> pystr list \<Rightarrow> int" where
  "boundary_search text chunk_size start end [] = end"
| "boundary_search text chunk_size start end (sep # seps) =
     (let last_sep = py_rfind (py_slice text start end) sep
      in if accepted chunk_size last_sep then start + last_sep + int (length sep)
         else boundary_search text chunk_size start end seps)"

text \<open>Lines 170 to 179: the end of the window that starts at \<open>start\<close>.\<close>

definition window_end :: "pystr \<Rightarrow> int \<Rightarrow> int \<Rightarrow> int" where
  "window_end text chunk_size start =
     (let end = start + chunk_size
      in if end < int (length text) then boundary_search text chunk_size start end separators
         else end)"

text \<open>
  The \<open>while start < len(text)\<close> loop (lines 169 to 186), with the two variables it
  updates, \<open>start\<close> and \<open>chunks\<close>. The loop may run forever, so it returns an option:
  \<open>None\<close> is a run that never leaves the loop.
\<close>

partial_function (option) chunk_loop ::
  "pystr \<Rightarrow> int \<Rightarrow> int \<Rightarrow> int \<Rightarrow> pystr list \<Rightarrow> pystr list option" where
  "chunk_loop text chunk_size overlap start chunks =
     (if start < int (length text) then
        (let end = window_end text chunk_size start;
             chunk = py_strip (py_slice text start end)
         in chunk_loop text chunk_size overlap
              (if end < int (length text) then end - overlap else int (length text))
              (if chunk \<noteq> [] then chunks @ [chunk] else chunks))
      else Some chunks)"

declare chunk_loop.simps [code]

definition split_text_into_chunks :: "pystr \<Rightarrow> int \<Rightarrow> int \<Rightarrow> pystr list option" where
  "split_text_into_chunks text chunk_size overlap =
     (if int (length text) \<le> chunk_size then Some (if py_strip text \<noteq> [] then [text] else [])
      else chunk_loop text chunk_size overlap 0 [])"

section \<open>Exceptions and the environment of the extractor\<close>

text \<open>
  The exceptions that reach \<open>extract_from_multiple\<close>, each with the text that \<open>str(e)\<close>
  returns. \<open>OSError\<close> stands for \<open>OSError\<close> and its subclasses other than
  \<open>FileNotFoundError\<close> (\<open>PermissionError\<close>, a name that is too long), and \<open>OtherError\<close>
  for any other subclass of \<open>Exception\<close> raised by a library (an error of the PDF
  engine, a \<open>LookupError\<close> for an unknown codec name).
\<close>

datatype exn =
    FileNotFoundError pystr
  | ValueError pystr
  | ImportError pystr
  | OSError pystr
  | OtherError pystr

fun str_exn :: "exn \<Rightarrow> pystr" where
  "str_exn (FileNotFoundError m) = m"
| "str_exn (ValueError m) = m"
| "str_exn (ImportError m) = m"
| "str_exn (OSError m) = m"
| "str_exn (OtherError m) = m"

text \<open>
  What the module asks of the world outside it, as the fields of one record:
  \<^item> \<open>path_exists\<close> is \<open>Path(p).exists()\<close>: it answers \<open>True\<close> or \<open>False\<close>, or it raises
    the \<open>OSError\<close> of the underlying \<open>stat\<close> when that is any other error than
    \<open>ENOENT\<close>, \<open>ENOTDIR\<close>, \<open>EBADF\<close> or \<open>ELOOP\<close> (a name that is too long, a directory
    that may not be searched); \<open>read_bytes\<close> is \<open>Path(p).read_bytes()\<close>;
  \<^item> \<open>str_lower\<close> is \<open>str.lower()\<close>, a table of the Unicode database;
  \<^item> \<open>utf8_strict\<close> is \<open>data.decode('utf-8')\<close>, with \<open>None\<close> for \<open>UnicodeDecodeError\<close>;
    \<open>utf8_replace\<close> is \<open>data.decode('utf-8', errors='replace')\<close>, which puts U+FFFD in
    place of every undecodable sequence and has no failing case;
    \<open>codec_replace\<close> is \<open>data.decode(label, errors='replace')\<close> for any other label;
  \<^item> \<open>charset_normalizer\<close> is \<open>None\<close> when the import fails; otherwise it maps the data
    to the error raised by \<open>from_bytes(data).best()\<close>, or to the encoding of the best
    match (\<open>None\<close> when \<open>best\<close> or \<open>best.encoding\<close> is falsy);
  \<^item> \<open>chardet\<close> likewise for \<open>chardet.detect(data)\<close> and \<open>result.get('encoding')\<close>;
  \<^item> \<open>fitz\<close> is \<open>None\<close> when PyMuPDF cannot be imported; otherwise it maps a path to the
    error of \<open>fitz.open\<close>, or to the outcome of \<open>get_text()\<close> for each page in order.
\<close>

record env =
  path_exists :: "pystr \<Rightarrow> exn + bool"
  read_bytes :: "pystr \<Rightarrow> exn + pybytes"
  str_lower :: "pystr \<Rightarrow> pystr"
  utf8_strict :: "pybytes \<Rightarrow> pystr option"
  utf8_replace :: "pybytes \<Rightarrow> pystr"
  codec_replace :: "pystr \<Rightarrow> pybytes \<Rightarrow> exn + pystr"
  charset_normalizer :: "(pybytes \<Rightarrow> exn + pystr option) option"
  chardet :: "(pybytes \<Rightarrow> exn + pystr option) option"
  fitz :: "(pystr \<Rightarrow> exn + (exn + pystr) list) option"

section \<open>The text decoder: \<open>_read_text_with_fallback\<close>\<close>

definition utf8_label :: pystr where
  "utf8_label = ascii ''utf-8''"

text \<open>\<open>data.decode(encoding, errors='replace')\<close> (line 58).\<close>

definition decode_replace :: "env \<Rightarrow> pystr \<Rightarrow> pybytes \<Rightarrow> exn + pystr" where
  "decode_replace env encoding data =
     (if encoding = utf8_label then Inr (utf8_replace env data)
      else codec_replace env encoding data)"

text \<open>
  Lines 36 to 43: \<open>encoding\<close> after the first detector. It stays \<open>None\<close> when the import
  or the call raises, and when the best match or its encoding is falsy.
\<close>

definition detect_charset_normalizer :: "env \<Rightarrow> pybytes \<Rightarrow> pystr option" where
  "detect_charset_normalizer env data =
     (case charset_normalizer env of
        None \<Rightarrow> None
      | Some from_bytes_best \<Rightarrow>
          (case from_bytes_best data of
             Inl e \<Rightarrow> None
           | Inr None \<Rightarrow> None
           | Inr (Some encoding) \<Rightarrow> if encoding \<noteq> [] then Some encoding else None))"

text \<open>Lines 47 to 52, entered when \<open>encoding\<close> is still \<open>None\<close>.\<close>

definition detect_chardet :: "env \<Rightarrow> pybytes \<Rightarrow> pystr option" where
  "detect_chardet env data =
     (case chardet env of
        None \<Rightarrow> None
      | Some detect \<Rightarrow> (case detect data of Inl e \<Rightarrow> None | Inr encoding \<Rightarrow> encoding))"

text \<open>\<open>not encoding\<close>: \<open>None\<close> and the empty string are falsy.\<close>

fun falsy :: "pystr option \<Rightarrow> bool" where
  "falsy None = True"
| "falsy (Some encoding) = (encoding = [])"

fun label_or :: "pystr option \<Rightarrow> pystr \<Rightarrow> pystr" where
  "label_or None d = d"
| "label_or (Some encoding) d = (if encoding = [] then d else encoding)"

definition read_text_with_fallback :: "env \<Rightarrow> pystr \<Rightarrow> exn + pystr" where
  "read_text_with_fallback env file_path =
     (case read_bytes env file_path of
        Inl e \<Rightarrow> Inl e
      | Inr data \<Rightarrow>
          (case utf8_strict env data of
             Some s \<Rightarrow> Inr s
           | None \<Rightarrow>
               (let encoding = detect_charset_normalizer env data;
                    encoding = (if falsy encoding then detect_chardet env data else encoding)
                in decode_replace env (label_or encoding utf8_label) data)))"

section \<open>The extractor: \<open>FileParser\<close>\<close>

text \<open>
  \<open>Path(p).name\<close> and \<open>Path(p).suffix\<close> for POSIX paths: the name is the last component
  that is neither empty nor \<open>.\<close>; the suffix starts at the last dot of the name, if that
  dot is neither its first nor its last character.
\<close>

fun split_on :: "nat \<Rightarrow> pystr \<Rightarrow> pystr list" where
  "split_on d [] = [ [] ]"
| "split_on d (c # cs) =
     (if c = d then [] # split_on d cs
      else (case split_on d cs of [] \<Rightarrow> [ [c] ] | p # ps \<Rightarrow> (c # p) # ps))"

definition path_name :: "pystr \<Rightarrow> pystr" where
  "path_name p =
     (case rev (filter (\<lambda>q. q \<noteq> [] \<and> q \<noteq> [0x2E]) (split_on 0x2F p)) of
        [] \<Rightarrow> []
      | name # _ \<Rightarrow> name)"

definition path_suffix :: "pystr \<Rightarrow> pystr" where
  "path_suffix p =
     (let name = path_name p; i = py_rfind name [0x2E]
      in if 0 < i \<and> i < int (length name) - 1 then drop (nat i) name else [])"

definition SUPPORTED_EXTENSIONS :: "pystr set" where
  "SUPPORTED_EXTENSIONS = {ascii ''.pdf'', ascii ''.md'', ascii ''.markdown'', ascii ''.txt''}"

text \<open>The fixed parts of the four messages (lines 80, 85, 94 and 102).\<close>

definition msg_not_found :: pystr where
  "msg_not_found = [0x6587, 0x4EF6, 0x4E0D, 0x5B58, 0x5728] @ ascii '': ''"

definition msg_unsupported :: pystr where
  "msg_unsupported =
     [0x4E0D, 0x652F, 0x6301, 0x7684, 0x6587, 0x4EF6, 0x683C, 0x5F0F] @ ascii '': ''"

definition msg_cannot_handle :: pystr where
  "msg_cannot_handle =
     [0x65E0, 0x6CD5, 0x5904, 0x7406, 0x7684, 0x6587, 0x4EF6, 0x683C, 0x5F0F] @ ascii '': ''"

definition msg_need_pymupdf :: pystr where
  "msg_need_pymupdf =
     [0x9700, 0x8981, 0x5B89, 0x88C5] @ ascii ''PyMuPDF: pip install PyMuPDF''"

text \<open>
  \<open>_extract_from_pdf\<close>: the loop over the pages keeps the texts that are not blank; the
  first page whose \<open>get_text()\<close> raises ends the call with that error.
\<close>

fun page_loop :: "(exn + pystr) list \<Rightarrow> pystr list \<Rightarrow> exn + pystr list" where
  "page_loop [] text_parts = Inr text_parts"
| "page_loop (Inl e # pages) text_parts = Inl e"
| "page_loop (Inr t # pages) text_parts =
     page_loop pages (if py_strip t \<noteq> [] then text_parts @ [t] else text_parts)"

definition extract_from_pdf :: "env \<Rightarrow> pystr \<Rightarrow> exn + pystr" where
  "extract_from_pdf env file_path =
     (case fitz env of
        None \<Rightarrow> Inl (ImportError msg_need_pymupdf)
      | Some fitz_open \<Rightarrow>
          (case fitz_open file_path of
             Inl e \<Rightarrow> Inl e
           | Inr doc \<Rightarrow>
               (case page_loop doc [] of
                  Inl e \<Rightarrow> Inl e
                | Inr text_parts \<Rightarrow> Inr (py_join [0x0A, 0x0A] text_parts))))"

definition extract_from_md :: "env \<Rightarrow> pystr \<Rightarrow> exn + pystr" where
  "extract_from_md env file_path = read_text_with_fallback env file_path"

definition extract_from_txt :: "env \<Rightarrow> pystr \<Rightarrow> exn + pystr" where
  "extract_from_txt env file_path = read_text_with_fallback env file_path"

text \<open>
  \<open>extract_text\<close>: the call \<open>path.exists()\<close> of line 79 is not guarded, so an error it
  raises leaves the function before the extension is looked at.
\<close>

definition extract_text :: "env \<Rightarrow> pystr \<Rightarrow> exn + pystr" where
  "extract_text env file_path =
     (case path_exists env file_path of
        Inl e \<Rightarrow> Inl e
      | Inr found \<Rightarrow>
          if \<not> found then Inl (FileNotFoundError (msg_not_found @ file_path))
          else
            (let suffix = str_lower env (path_suffix file_path)
             in if suffix \<notin> SUPPORTED_EXTENSIONS
                  then Inl (ValueError (msg_unsupported @ suffix))
                else if suffix = ascii ''.pdf'' then extract_from_pdf env file_path
                else if suffix \<in> {ascii ''.md'', ascii ''.markdown''}
                  then extract_from_md env file_path
                else if suffix = ascii ''.txt'' then extract_from_txt env file_path
                else Inl (ValueError (msg_cannot_handle @ suffix))))"

text \<open>\<open>str(i)\<close> for the index of \<open>enumerate(file_paths, 1)\<close>: decimal digits.\<close>

fun str_nat :: "nat \<Rightarrow> pystr" where
  "str_nat n = (if n < 10 then [0x30 + n] else str_nat (n div 10) @ [0x30 + n mod 10])"

declare str_nat.simps [simp del]

text \<open>The two f-strings of \<open>extract_from_multiple\<close> (lines 140 and 142).\<close>

definition success_section :: "nat \<Rightarrow> pystr \<Rightarrow> pystr \<Rightarrow> pystr" where
  "success_section i filename t =
     ascii ''=== '' @ [0x6587, 0x6863] @ ascii '' '' @ str_nat i @ ascii '': '' @ filename @
     ascii '' ==='' @ [0x0A] @ t"

definition failure_section :: "nat \<Rightarrow> pystr \<Rightarrow> pystr \<Rightarrow> pystr" where
  "failure_section i file_path message =
     ascii ''=== '' @ [0x6587, 0x6863] @ ascii '' '' @ str_nat i @ ascii '': '' @ file_path @
     ascii '' ('' @ [0x63D0, 0x53D6, 0x5931, 0x8D25] @ ascii '': '' @ message @ ascii '') ===''"

text \<open>The body of the \<open>for\<close> loop: the \<open>try\<close> block and its \<open>except Exception\<close> handler.\<close>

definition section_of :: "env \<Rightarrow> nat \<Rightarrow> pystr \<Rightarrow> pystr" where
  "section_of env i file_path =
     (case extract_text env file_path of
        Inr t \<Rightarrow> success_section i (path_name file_path) t
      | Inl e \<Rightarrow> failure_section i file_path (str_exn e))"

fun multiple_loop :: "env \<Rightarrow> nat \<Rightarrow> pystr list \<Rightarrow> pystr list \<Rightarrow> pystr list" where
  "multiple_loop env i [] all_texts = all_texts"
| "multiple_loop env i (file_path # file_paths) all_texts =
     multiple_loop env (Suc i) file_paths (all_texts @ [section_of env i file_path])"

definition all_texts :: "env \<Rightarrow> pystr list \<Rightarrow> pystr list" where
  "all_texts env file_paths = multiple_loop env 1 file_paths []"

definition extract_from_multiple :: "env \<Rightarrow> pystr list \<Rightarrow> pystr" where
  "extract_from_multiple env file_paths = py_join [0x0A, 0x0A] (all_texts env file_paths)"

section \<open>The formats and the boundary rule as the specification words them\<close>

text \<open>
  The composite text format of the specification, section 6:
  \<open>=== Document {i}: {basename} ===\n{text}\<close> for a success and
  \<open>=== Document {i}: {path} (extraction failed: {error message}) ===\<close> for a failure.
\<close>

definition spec_success_section :: "nat \<Rightarrow> pystr \<Rightarrow> pystr \<Rightarrow> pystr" where
  "spec_success_section i basename t =
     ascii ''=== Document '' @ str_nat i @ ascii '': '' @ basename @ ascii '' ==='' @ [0x0A] @ t"

definition spec_failure_section :: "nat \<Rightarrow> pystr \<Rightarrow> pystr \<Rightarrow> pystr" where
  "spec_failure_section i path message =
     ascii ''=== Document '' @ str_nat i @ ascii '': '' @ path @
     ascii '' (extraction failed: '' @ message @ ascii '') ===''"

text \<open>
  The specification's boundary rule, section 4.3: the separator that is chosen is the
  first one, in priority order, that has any occurrence in the window.
\<close>

definition occurs_in :: "pystr \<Rightarrow> pystr \<Rightarrow> bool" where
  "occurs_in window sep \<longleftrightarrow> py_rfind window sep \<noteq> - 1"

definition spec_first_occurring :: "pystr \<Rightarrow> pystr option" where
  "spec_first_occurring window = find (occurs_in window) separators"

text \<open>
  What it means for a detector to yield no label: it is not installed, or it raises, or
  it reports nothing or an empty name.
\<close>

definition no_label :: "(pybytes \<Rightarrow> exn + pystr option) option \<Rightarrow> pybytes \<Rightarrow> bool" where
  "no_label detector data \<longleftrightarrow>
     (case detector of
        None \<Rightarrow> True
      | Some detect \<Rightarrow>
          (case detect data of Inl e \<Rightarrow> True | Inr None \<Rightarrow> True | Inr (Some l) \<Rightarrow> l = []))"

section \<open>Example inputs\<close>

text \<open>
  The UTF-8 codec of the example environment: well-formed sequences as in RFC 3629; in
  replacing mode every maximal ill-formed prefix becomes one U+FFFD, otherwise the first
  ill-formed byte ends the decoding with \<open>None\<close>.
\<close>

definition is_cont :: "8 word \<Rightarrow> bool" where
  "is_cont b \<longleftrightarrow> 0x80 \<le> b \<and> b \<le> 0xBF"

definition second_ok :: "8 word \<Rightarrow> 8 word \<Rightarrow> bool" where
  "second_ok b0 b1 \<longleftrightarrow>
     (if b0 = 0xE0 then 0xA0 \<le> b1 \<and> b1 \<le> 0xBF
      else if b0 = 0xED then 0x80 \<le> b1 \<and> b1 \<le> 0x9F
      else if b0 = 0xF0 then 0x90 \<le> b1 \<and> b1 \<le> 0xBF
      else if b0 = 0xF4 then 0x80 \<le> b1 \<and> b1 \<le> 0x8F
      else is_cont b1)"

definition emit :: "nat \<Rightarrow> pystr option \<Rightarrow> pystr option" where
  "emit c rest = map_option ((#) c) rest"

definition bad :: "bool \<Rightarrow> pystr option \<Rightarrow> pystr option" where
  "bad replace rest = (if replace then emit 0xFFFD rest else None)"

definition low6 :: "8 word \<Rightarrow> nat" where
  "low6 b = unat b - 0x80"

fun utf8_codec :: "bool \<Rightarrow> pybytes \<Rightarrow> pystr option" where
  "utf8_codec r [] = Some []"
| "utf8_codec r (b0 # bs) =
     (if b0 < 0x80 then emit (unat b0) (utf8_codec r bs)
      else if 0xC2 \<le> b0 \<and> b0 \<le> 0xDF then
        (case bs of
           [] \<Rightarrow> bad r (Some [])
         | b1 # r1 \<Rightarrow>
             if is_cont b1 then emit ((unat b0 - 0xC0) * 64 + low6 b1) (utf8_codec r r1)
             else bad r (utf8_codec r bs))
      else if 0xE0 \<le> b0 \<and> b0 \<le> 0xEF then
        (case bs of
           [] \<Rightarrow> bad r (Some [])
         | b1 # r1 \<Rightarrow>
             if \<not> second_ok b0 b1 then bad r (utf8_codec r bs)
             else
               (case r1 of
                  [] \<Rightarrow> bad r (Some [])
                | b2 # r2 \<Rightarrow>
                    if is_cont b2
                    then emit ((unat b0 - 0xE0) * 4096 + low6 b1 * 64 + low6 b2)
                           (utf8_codec r r2)
                    else bad r (utf8_codec r r1)))
      else if 0xF0 \<le> b0 \<and> b0 \<le> 0xF4 then
        (case bs of
           [] \<Rightarrow> bad r (Some [])
         | b1 # r1 \<Rightarrow>
             if \<not> second_ok b0 b1 then bad r (utf8_codec r bs)
             else
               (case r1 of
                  [] \<Rightarrow> bad r (Some [])
                | b2 # r2 \<Rightarrow>
                    if \<not> is_cont b2 then bad r (utf8_codec r r1)
                    else
                      (case r2 of
                         [] \<Rightarrow> bad r (Some [])
                       | b3 # r3 \<Rightarrow>
                           if is_cont b3
                           then emit ((unat b0 - 0xF0) * 262144 + low6 b1 * 4096 +
                                      low6 b2 * 64 + low6 b3)
                                  (utf8_codec r r3)
                           else bad r (utf8_codec r r2))))
      else bad r (utf8_codec r bs))"

definition ascii_lower :: "nat \<Rightarrow> nat" where
  "ascii_lower c = (if 0x41 \<le> c \<and> c \<le> 0x5A then c + 0x20 else c)"

text \<open>
  An example file system and no optional library. The files that exist are those of
  \<open>example_files\<close>: \<open>good.txt\<close> holds the bytes of \<open>hi\<close>, \<open>notes.MD\<close> the two bytes of
  U+00E9, \<open>latin.txt\<close> the byte \<open>0xFF\<close> followed by \<open>A\<close> (not UTF-8), and \<open>report.docx\<close>,
  \<open>OLD.DOCX\<close> and \<open>locked/report.docx\<close> have a format that is not supported. As on
  Linux, a path with a component of more than 255 characters is refused with errno 36;
  and the directory \<open>locked\<close> may not be searched by the caller, so every access below it
  is refused with errno 13, whether the file is there or not. The first detector is
  installed and reports nothing; the second is not installed, and neither is the PDF
  engine.
\<close>

definition example_files :: "(pystr \<times> pybytes) list" where
  "example_files =
     [(ascii ''good.txt'', [0x68, 0x69]),
      (ascii ''notes.MD'', [0xC3, 0xA9]),
      (ascii ''latin.txt'', [0xFF, 0x41]),
      (ascii ''report.docx'', [0x50, 0x4B]),
      (ascii ''OLD.DOCX'', [0x50, 0x4B]),
      (ascii ''locked/report.docx'', [0x50, 0x4B])]"

definition name_too_long :: "pystr \<Rightarrow> bool" where
  "name_too_long p \<longleftrightarrow> list_ex (\<lambda>c. 255 < length c) (split_on 0x2F p)"

definition below_locked :: "pystr \<Rightarrow> bool" where
  "below_locked p \<longleftrightarrow> take 7 p = ascii ''locked/''"

definition quoted :: "pystr \<Rightarrow> pystr" where
  "quoted p = [0x27] @ p @ [0x27]"

text \<open>The outcome of \<open>stat\<close> on the example file system, which both calls go through.\<close>

definition example_stat :: "pystr \<Rightarrow> exn + pybytes option" where
  "example_stat p =
     (if name_too_long p
        then Inl (OSError (ascii ''[Errno 36] File name too long: '' @ quoted p))
      else if below_locked p
        then Inl (OSError (ascii ''[Errno 13] Permission denied: '' @ quoted p))
      else Inr (map_of example_files p))"

definition example_env :: env where
  "example_env =
     \<lparr> path_exists = (\<lambda>p. case example_stat p of
                              Inl e \<Rightarrow> Inl e
                            | Inr file \<Rightarrow> Inr (file \<noteq> None)),
       read_bytes = (\<lambda>p. case example_stat p of
                             Inl e \<Rightarrow> Inl e
                           | Inr (Some data) \<Rightarrow> Inr data
                           | Inr None \<Rightarrow>
                               Inl (FileNotFoundError
                                 (ascii ''[Errno 2] No such file or directory: '' @ quoted p))),
       str_lower = map ascii_lower,
       utf8_strict = utf8_codec False,
       utf8_replace = (\<lambda>data. case utf8_codec True data of Some s \<Rightarrow> s | None \<Rightarrow> []),
       codec_replace = (\<lambda>l data. Inl (OtherError (ascii ''unknown encoding: '' @ l))),
       charset_normalizer = Some (\<lambda>data. Inr None),
       chardet = None,
       fitz = None \<rparr>"

text \<open>A file name of 304 characters: 300 times \<open>a\<close>, then \<open>.txt\<close>.\<close>

definition long_name :: pystr where
  "long_name = replicate 300 0x61 @ ascii ''.txt''"

text \<open>
  Two texts for the chunker. In \<open>boundary_example\<close> (15 code points) the full-width full
  stop is the first character and \<open>. \<close> sits at index 6. In \<open>stall_example\<close>
  (20 code points) the full-width full stop sits at index 4.
\<close>

definition boundary_example :: pystr where
  "boundary_example =
     [0x3002, 0x61, 0x61, 0x61, 0x61, 0x61, 0x2E, 0x20,
      0x62, 0x62, 0x62, 0x62, 0x62, 0x62, 0x62]"

definition stall_example :: pystr where
  "stall_example =
     [0x61, 0x61, 0x61, 0x61, 0x3002, 0x61, 0x61, 0x61, 0x61, 0x61,
      0x61, 0x61, 0x61, 0x61, 0x61, 0x61, 0x61, 0x61, 0x61, 0x61]"

section \<open>Facts about the Python primitives\<close>

text \<open>A slice taken between ordered bounds is no longer than their distance.\<close>

lemma length_py_slice: "lo \<le> hi \<Longrightarrow> int (length (py_slice s lo hi)) \<le> hi - lo"
  by (auto simp: py_slice_def slice_index_def Let_def)

lemma length_dropWhile_le: "length (dropWhile P xs) \<le> length xs"
  by (induction xs) auto

lemma length_py_strip: "length (py_strip s) \<le> length s"
proof -
  have "length (py_strip s) \<le> length (dropWhile isspace s)"
    unfolding py_strip_def
    using length_dropWhile_le [of isspace "rev (dropWhile isspace s)"] by simp
  also have "\<dots> \<le> length s"
    by (rule length_dropWhile_le)
  finally show ?thesis .
qed

text \<open>\<open>strip\<close> leaves nothing exactly when every character is whitespace.\<close>

lemma py_strip_empty_iff: "py_strip s = [] \<longleftrightarrow> (\<forall>c\<in>set s. isspace c)"
proof
  assume "py_strip s = []"
  then have "dropWhile isspace (rev (dropWhile isspace s)) = []"
    by (simp add: py_strip_def)
  then have "\<forall>c\<in>set (rev (dropWhile isspace s)). isspace c"
    by (simp only: dropWhile_eq_Nil_conv)
  then have all: "\<forall>c\<in>set (dropWhile isspace s). isspace c"
    by (simp only: set_rev)
  have "dropWhile isspace s = []"
  proof (rule ccontr)
    assume ne: "dropWhile isspace s \<noteq> []"
    then have "\<not> isspace (hd (dropWhile isspace s))" by (rule hd_dropWhile)
    moreover from ne have "hd (dropWhile isspace s) \<in> set (dropWhile isspace s)" by simp
    ultimately show False using all by blast
  qed
  then show "\<forall>c\<in>set s. isspace c" by (simp only: dropWhile_eq_Nil_conv)
next
  assume "\<forall>c\<in>set s. isspace c"
  then show "py_strip s = []" by (auto simp: py_strip_def dest: set_dropWhileD)
qed

text \<open>A match found by \<open>rfind\<close> lies inside the string it was searched in.\<close>

lemma py_rfind_range:
  "py_rfind s sub = - 1 \<or>
   (0 \<le> py_rfind s sub \<and> py_rfind s sub + int (length sub) \<le> int (length s))"
proof (cases "filter (occurs_at s sub) (rev [0..<Suc (length s) - length sub])")
  case Nil
  then show ?thesis by (simp add: py_rfind_def)
next
  case (Cons i js)
  then have "i \<in> set (filter (occurs_at s sub) (rev [0..<Suc (length s) - length sub]))"
    by simp
  then have "i < Suc (length s) - length sub" by simp
  with Cons show ?thesis by (simp add: py_rfind_def)
qed

section \<open>The window of one iteration\<close>

lemma boundary_search_le:
  "0 \<le> cs \<Longrightarrow> boundary_search t cs start (start + cs) seps \<le> start + cs"
proof (induction seps)
  case Nil
  then show ?case by simp
next
  case (Cons sep seps)
  let ?w = "py_slice t start (start + cs)"
  have "int (length ?w) \<le> cs"
    using length_py_slice [of start "start + cs" t] Cons.prems by simp
  moreover have "py_rfind ?w sep = - 1 \<or> py_rfind ?w sep + int (length sep) \<le> int (length ?w)"
    using py_rfind_range [of ?w sep] by blast
  ultimately show ?case using Cons by (auto simp: Let_def accepted_def)
qed

lemma boundary_search_ge:
  "0 \<le> cs \<Longrightarrow> start \<le> boundary_search t cs start (start + cs) seps"
  by (induction seps) (auto simp: Let_def accepted_def)

lemma window_end_bounds:
  "0 \<le> cs \<Longrightarrow> start \<le> window_end t cs start \<and> window_end t cs start \<le> start + cs"
  by (simp add: window_end_def Let_def boundary_search_le boundary_search_ge)

text \<open>
  The \<open>for\<close> loop with its \<open>break\<close> is a search for the first separator of the list that
  passes the test of line 177.
\<close>

lemma boundary_search_find:
  "boundary_search t cs start e seps =
     (case find (accepted_in (py_slice t start e) cs) seps of
        None \<Rightarrow> e
      | Some sep \<Rightarrow> start + py_rfind (py_slice t start e) sep + int (length sep))"
  by (induction seps) (simp_all add: Let_def accepted_in_def)

lemma separators_nonempty: "sep \<in> set separators \<Longrightarrow> 1 \<le> length sep"
  by (auto simp: separators_def)

text \<open>
  The next cursor \<open>end - overlap\<close> lies beyond \<open>start\<close> when the overlap is below the
  chunk size and, in addition, at most one more than 30 percent of it: an accepted
  separator starts after index \<open>3 * chunk_size / 10\<close> and is at least one character long.
\<close>

lemma window_end_advances:
  assumes "0 \<le> ov" and "ov < cs" and "10 * (ov - 1) \<le> 3 * cs"
  shows "start + ov < window_end t cs start"
proof (cases "start + cs < int (length t)")
  case False
  with assms show ?thesis by (simp add: window_end_def)
next
  case True
  let ?w = "py_slice t start (start + cs)"
  show ?thesis
  proof (cases "find (accepted_in ?w cs) separators")
    case None
    with True assms show ?thesis by (simp add: window_end_def boundary_search_find)
  next
    case (Some sep)
    then have "sep \<in> set separators" and "accepted_in ?w cs sep"
      by (auto simp: find_Some_iff)
    then have "1 \<le> int (length sep)" and "3 * cs < 10 * py_rfind ?w sep"
      using separators_nonempty [of sep] by (simp_all add: accepted_in_def accepted_def)
    with assms have "start + ov < start + py_rfind ?w sep + int (length sep)" by simp
    with True Some show ?thesis by (simp add: window_end_def boundary_search_find)
  qed
qed

section \<open>The loop\<close>

lemmas chunk_loop_induct = chunk_loop.raw_induct [rotated 1, consumes 1, case_names step]

lemma chunk_loop_stop:
  "\<not> start < int (length t) \<Longrightarrow> chunk_loop t cs ov start chunks = Some chunks"
  by (subst chunk_loop.simps) simp

lemma chunk_loop_step:
  "start < int (length t) \<Longrightarrow>
   chunk_loop t cs ov start chunks =
     chunk_loop t cs ov
       (if window_end t cs start < int (length t) then window_end t cs start - ov
        else int (length t))
       (if py_strip (py_slice t start (window_end t cs start)) \<noteq> []
        then chunks @ [py_strip (py_slice t start (window_end t cs start))] else chunks)"
  by (subst chunk_loop.simps) (simp add: Let_def)

text \<open>Invariant of the loop: no chunk is longer than \<open>chunk_size\<close>.\<close>

lemma chunk_loop_bounded:
  assumes "chunk_loop t cs ov start chunks = Some res"
  shows "0 \<le> cs \<and> (\<forall>c\<in>set chunks. int (length c) \<le> cs) \<longrightarrow>
         (\<forall>c\<in>set res. int (length c) \<le> cs)"
  using assms
proof (induct t cs ov start chunks res rule: chunk_loop_induct)
  case (step loop t cs ov start chunks res)
  show ?case
  proof
    assume "0 \<le> cs \<and> (\<forall>c\<in>set chunks. int (length c) \<le> cs)"
    then have cs: "0 \<le> cs" and inv: "\<forall>c\<in>set chunks. int (length c) \<le> cs"
      by simp_all
    show "\<forall>c\<in>set res. int (length c) \<le> cs"
    proof (cases "start < int (length t)")
      case False
      with step(2) inv show ?thesis by simp
    next
      case True
      define e where "e = window_end t cs start"
      define chunk where "chunk = py_strip (py_slice t start e)"
      define chunks' where "chunks' = (if chunk \<noteq> [] then chunks @ [chunk] else chunks)"
      define start' where "start' = (if e < int (length t) then e - ov else int (length t))"
      from step(2) True have run: "loop t cs ov start' chunks' = Some res"
        unfolding e_def chunk_def chunks'_def start'_def
        by (simp add: Let_def split del: if_split)
      have "start \<le> e" "e \<le> start + cs"
        using window_end_bounds [OF cs, of start t] by (simp_all add: e_def)
      then have "int (length (py_slice t start e)) \<le> cs"
        using length_py_slice [of start e t] by simp
      then have "int (length chunk) \<le> cs"
        using length_py_strip [of "py_slice t start e"] by (simp add: chunk_def)
      with inv have "\<forall>c\<in>set chunks'. int (length c) \<le> cs"
        by (simp add: chunks'_def)
      with step(1) [OF run] cs show ?thesis by simp
    qed
  qed
qed

text \<open>
  Termination under the stronger bound on the overlap: the distance from \<open>start\<close> to the
  end of the text decreases in every iteration. The default parameters, 500 and 50,
  satisfy the bound.
\<close>

lemma chunk_loop_terminates:
  assumes "0 \<le> ov" and "ov < cs" and "10 * (ov - 1) \<le> 3 * cs"
  shows "\<exists>res. chunk_loop t cs ov start chunks = Some res"
proof (induction "nat (int (length t) - start)" arbitrary: start chunks rule: less_induct)
  case less
  show ?case
  proof (cases "start < int (length t)")
    case False
    then show ?thesis by (simp add: chunk_loop_stop)
  next
    case True
    define e where "e = window_end t cs start"
    define start' where "start' = (if e < int (length t) then e - ov else int (length t))"
    define chunks' where "chunks' =
      (if py_strip (py_slice t start e) \<noteq> [] then chunks @ [py_strip (py_slice t start e)]
       else chunks)"
    have "start + ov < e" unfolding e_def by (rule window_end_advances [OF assms])
    with True have "nat (int (length t) - start') < nat (int (length t) - start)"
      by (simp add: start'_def)
    from less [OF this] obtain res where
      "chunk_loop t cs ov start' chunks' = Some res"
      by blast
    moreover have "chunk_loop t cs ov start chunks = chunk_loop t cs ov start' chunks'"
      unfolding start'_def chunks'_def e_def by (rule chunk_loop_step [OF True])
    ultimately show ?thesis by simp
  qed
qed

lemma split_text_into_chunks_terminates:
  assumes "0 \<le> overlap" and "overlap < chunk_size" and "10 * (overlap - 1) \<le> 3 * chunk_size"
  shows "\<exists>chunks. split_text_into_chunks t chunk_size overlap = Some chunks"
  using chunk_loop_terminates [OF assms] by (simp add: split_text_into_chunks_def)

text \<open>The early return of line 164 hands back the text as it is, or nothing.\<close>

lemma short_text_result:
  "int (length t) \<le> chunk_size \<Longrightarrow>
   split_text_into_chunks t chunk_size overlap =
     Some (if \<forall>c\<in>set t. isspace c then [] else [t])"
  by (simp add: split_text_into_chunks_def py_strip_empty_iff)

section \<open>The chunker on the example texts\<close>

lemmas eval_chunker =
  window_end_def separators_def py_rfind_def py_slice_def
  slice_index_def accepted_def occurs_at_def py_strip_def isspace_def Let_def

lemma boundary_example_window: "window_end boundary_example 10 0 = 8"
  by (simp add: boundary_example_def eval_chunker)

lemma boundary_example_chunks:
  "split_text_into_chunks boundary_example 10 2 =
     Some [ [0x3002, 0x61, 0x61, 0x61, 0x61, 0x61, 0x2E],
            [0x2E, 0x20, 0x62, 0x62, 0x62, 0x62, 0x62, 0x62, 0x62] ]"
  by (simp add: split_text_into_chunks_def chunk_loop_step chunk_loop_stop
      boundary_example_def eval_chunker)

lemma stall_example_window: "window_end stall_example 10 0 = 5"
  by (simp add: stall_example_def eval_chunker)

text \<open>
  On \<open>stall_example\<close> with chunk size 10 and overlap 5 the first window ends after the
  full-width full stop, at 5, and the next cursor is \<open>5 - 5 = 0\<close> again: every iteration
  starts at 0, so no run of the loop from there returns.
\<close>

lemma stall_example_loops: "chunk_loop stall_example 10 5 0 chunks = None"
proof -
  have "\<not> (t = stall_example \<and> cs = 10 \<and> ov = 5 \<and> start = 0)"
    if "chunk_loop t cs ov start chunks = Some res" for t cs ov start chunks res
    using that
  proof (induct t cs ov start chunks res rule: chunk_loop_induct)
    case (step loop t cs ov start chunks res)
    show ?case
    proof
      assume a: "t = stall_example \<and> cs = 10 \<and> ov = 5 \<and> start = 0"
      have l: "length stall_example = 20" by (simp add: stall_example_def)
      from step(2) a l obtain c where "loop stall_example 10 5 0 c = Some res"
        by (simp add: Let_def stall_example_window)
      with step(1) show False by blast
    qed
  qed
  note never = this
  show ?thesis
  proof (cases "chunk_loop stall_example 10 5 0 chunks")
    case None
    then show ?thesis .
  next
    case (Some res)
    from never [OF Some] show ?thesis by simp
  qed
qed

section \<open>Claims about the chunker\<close>

text \<open>
  C2, at the input \<open>" a"\<close> with the default parameters: the text is shorter than the chunk
  size and is not blank, and the result is the one-element list holding the text with
  its leading space, while \<open>text.strip()\<close> is \<open>"a"\<close>. The early return does not trim.
\<close>

theorem short_text_not_stripped:
  "int (length [0x20, 0x61 :: nat]) \<le> 500 \<and>
   split_text_into_chunks [0x20, 0x61] 500 50 = Some [ [0x20, 0x61] ] \<and>
   py_strip [0x20, 0x61] = [0x61]"
  by (simp add: split_text_into_chunks_def py_strip_def isspace_def)

text \<open>
  C3 as the specification words it, refuted on \<open>boundary_example\<close> with chunk size 10: the
  tentative end 10 is before the end of the text; the first separator that occurs in the
  window is the full-width full stop, at index 0, which does not exceed 30 percent of the
  chunk size; and yet the window does not end at the hard cut \<open>0 + 10\<close>.
\<close>

theorem first_occurring_counterexample:
  "0 + 10 < int (length boundary_example) \<and>
   spec_first_occurring (py_slice boundary_example 0 10) = Some [0x3002] \<and>
   \<not> 3 * 10 < 10 * py_rfind (py_slice boundary_example 0 10) [0x3002] \<and>
   window_end boundary_example 10 0 \<noteq> 0 + 10"
  by (simp add: boundary_example_window)
     (simp add: boundary_example_def spec_first_occurring_def occurs_in_def eval_chunker)

text \<open>
  C3, amended: when the tentative end \<open>start + chunk_size\<close> is before the end of the text,
  the search goes through the separators in the fixed priority order and commits to the
  first one whose rightmost occurrence in the window exceeds 30 percent of the chunk
  size; the window then ends just after that occurrence, and no separator of lower
  priority is consulted. A separator without such an occurrence is passed over, and when
  none has one the window ends at the hard cut \<open>start + chunk_size\<close>.
\<close>

theorem boundary_first_accepted:
  assumes "start + chunk_size < int (length t)"
  shows "window_end t chunk_size start =
     (case find (accepted_in (py_slice t start (start + chunk_size)) chunk_size) separators of
        None \<Rightarrow> start + chunk_size
      | Some sep \<Rightarrow>
          start + py_rfind (py_slice t start (start + chunk_size)) sep + int (length sep))"
  using assms by (simp add: window_end_def boundary_search_find Let_def)

text \<open>
  On \<open>boundary_example\<close> the first accepted separator is \<open>. \<close>, found at index 6, and the
  window ends at 8.
\<close>

theorem boundary_first_accepted_witness:
  "0 + 10 < int (length boundary_example) \<and>
   find (accepted_in (py_slice boundary_example 0 10) 10) separators = Some [0x2E, 0x20] \<and>
   py_rfind (py_slice boundary_example 0 10) [0x2E, 0x20] = 6 \<and>
   window_end boundary_example 10 0 = 8"
proof -
  have l: "0 + 10 < int (length boundary_example)" by (simp add: boundary_example_def)
  have f: "find (accepted_in (py_slice boundary_example 0 10) 10) separators = Some [0x2E, 0x20]"
    by (simp add: boundary_example_def accepted_in_def eval_chunker)
  have r: "py_rfind (py_slice boundary_example 0 10) [0x2E, 0x20] = 6"
    by (simp add: boundary_example_def eval_chunker)
  from boundary_first_accepted [OF l] f r l show ?thesis by simp
qed

text \<open>
  C4, at \<open>stall_example\<close> with chunk size 10 and overlap 5, which satisfy
  \<open>chunk_size > 0\<close> and \<open>0 \<le> overlap < chunk_size\<close>: the call never returns.
\<close>

theorem stall_example_diverges:
  "(0::int) < 10 \<and> (0::int) \<le> 5 \<and> (5::int) < 10 \<and>
   split_text_into_chunks stall_example 10 5 = None"
  by (simp add: split_text_into_chunks_def stall_example_loops) (simp add: stall_example_def)

text \<open>
  C10: for every text, every \<open>chunk_size > 0\<close> and every overlap with
  \<open>0 \<le> overlap < chunk_size\<close>, every chunk of the list that \<open>split_text_into_chunks\<close>
  returns has at most \<open>chunk_size\<close> characters.
\<close>

theorem chunks_bounded:
  assumes "0 < chunk_size" and "0 \<le> overlap" and "overlap < chunk_size"
    and "split_text_into_chunks t chunk_size overlap = Some chunks"
  shows "\<forall>c\<in>set chunks. int (length c) \<le> chunk_size"
proof (cases "int (length t) \<le> chunk_size")
  case True
  with assms(4) show ?thesis by (auto simp: split_text_into_chunks_def split: if_splits)
next
  case False
  with assms(4) have "chunk_loop t chunk_size overlap 0 [] = Some chunks"
    by (simp add: split_text_into_chunks_def)
  from chunk_loop_bounded [OF this] assms(1) show ?thesis by simp
qed

text \<open>\<open>boundary_example\<close> with chunk size 10 and overlap 2 yields chunks of 7 and 9 characters.\<close>

theorem chunks_bounded_witness:
  "(0::int) < 10 \<and> (0::int) \<le> 2 \<and> (2::int) < 10 \<and>
   split_text_into_chunks boundary_example 10 2 =
     Some [ [0x3002, 0x61, 0x61, 0x61, 0x61, 0x61, 0x2E],
            [0x2E, 0x20, 0x62, 0x62, 0x62, 0x62, 0x62, 0x62, 0x62] ] \<and>
   int (length [0x3002, 0x61, 0x61, 0x61, 0x61, 0x61, 0x2E :: nat]) \<le> 10 \<and>
   int (length [0x2E, 0x20, 0x62, 0x62, 0x62, 0x62, 0x62, 0x62, 0x62 :: nat]) \<le> 10"
  using chunks_bounded [OF _ _ _ boundary_example_chunks] boundary_example_chunks by simp

section \<open>The batch loop and the example environment\<close>

text \<open>
  The loop of \<open>extract_from_multiple\<close> appends one section per path, numbered as
  \<open>enumerate(file_paths, 1)\<close> numbers them.
\<close>

lemma multiple_loop_enumerate:
  "multiple_loop env i ps acc = acc @ map (\<lambda>(j, p). section_of env j p) (enumerate i ps)"
  by (induction ps arbitrary: i acc) simp_all

lemma all_texts_enumerate:
  "all_texts env ps = map (\<lambda>(j, p). section_of env j p) (enumerate 1 ps)"
  by (simp add: all_texts_def multiple_loop_enumerate)

lemma length_all_texts: "length (all_texts env ps) = length ps"
  by (simp add: all_texts_enumerate)

lemma nth_all_texts:
  "k < length ps \<Longrightarrow> all_texts env ps ! k = section_of env (Suc k) (ps ! k)"
  by (simp add: all_texts_enumerate nth_enumerate_eq)

lemma all_texts_snoc:
  "all_texts env (ps @ [q]) = all_texts env ps @ [section_of env (Suc (length ps)) q]"
  by (simp add: all_texts_enumerate enumerate_append_eq)

text \<open>Joining one more part puts the separator before it, unless it is the first.\<close>

lemma py_join_snoc:
  "py_join sep (xs @ [y]) = (if xs = [] then y else py_join sep xs @ sep @ y)"
  by (induction sep xs rule: py_join.induct) simp_all

text \<open>A detector that yields no label leaves \<open>encoding\<close> falsy.\<close>

lemma no_label_charset_normalizer:
  "no_label (charset_normalizer env) data \<Longrightarrow> detect_charset_normalizer env data = None"
  by (auto simp: no_label_def detect_charset_normalizer_def split: option.splits sum.splits)

lemma no_label_chardet:
  assumes "no_label (chardet env) data"
  shows "falsy (detect_chardet env data)"
proof (cases "chardet env")
  case None
  then show ?thesis by (simp add: detect_chardet_def)
next
  case (Some detect)
  show ?thesis
  proof (cases "detect data")
    case (Inl e)
    with Some show ?thesis by (simp add: detect_chardet_def)
  next
    case (Inr encoding)
    with Some assms show ?thesis
      by (cases encoding) (simp_all add: detect_chardet_def no_label_def)
  qed
qed

lemma label_or_falsy: "falsy encoding \<Longrightarrow> label_or encoding d = d"
  by (cases encoding) simp_all

lemmas eval_example =
  example_env_def example_stat_def name_too_long_def below_locked_def quoted_def
  example_files_def ascii_def ascii_lower_def path_suffix_def path_name_def
  py_rfind_def occurs_at_def SUPPORTED_EXTENSIONS_def

lemma example_good: "extract_text example_env (ascii ''good.txt'') = Inr (ascii ''hi'')"
  by (simp add: extract_text_def extract_from_txt_def read_text_with_fallback_def
      eval_example emit_def)

lemma example_missing:
  "extract_text example_env (ascii ''missing.txt'') =
     Inl (FileNotFoundError (msg_not_found @ ascii ''missing.txt''))"
  by (simp add: extract_text_def eval_example)

text \<open>The long name is one component, too long for the file system, and not a file.\<close>

lemma split_on_no_sep: "d \<notin> set s \<Longrightarrow> split_on d s = [s]"
  by (induction s) auto

lemma long_name_too_long: "name_too_long long_name"
  by (simp add: name_too_long_def long_name_def ascii_def split_on_no_sep)

lemma example_files_names_short: "(k, d) \<in> set example_files \<Longrightarrow> length k \<le> 18"
  by (auto simp: example_files_def ascii_def)

lemma long_name_absent: "map_of example_files long_name = None"
proof (rule ccontr)
  assume "map_of example_files long_name \<noteq> None"
  then obtain d where "map_of example_files long_name = Some d" by auto
  then have "(long_name, d) \<in> set example_files" by (rule map_of_SomeD)
  then have "length long_name \<le> 18" by (rule example_files_names_short)
  then show False by (simp add: long_name_def ascii_def)
qed

lemma example_long_name:
  "extract_text example_env long_name =
     Inl (OSError (ascii ''[Errno 36] File name too long: '' @ quoted long_name))"
  by (simp add: extract_text_def example_env_def example_stat_def long_name_too_long)

section \<open>Claims about the extractor\<close>

text \<open>
  C1 as the specification words it, refuted in the example environment on the paths
  \<open>good.txt\<close> and \<open>missing.txt\<close>: the first is extracted and the second is not found, and
  neither section is the specification's string with the word \<open>Document\<close> and the phrase
  \<open>extraction failed\<close>.
\<close>

theorem english_labels_counterexample:
  "extract_text example_env (ascii ''good.txt'') = Inr (ascii ''hi'') \<and>
   extract_text example_env (ascii ''missing.txt'') =
     Inl (FileNotFoundError (msg_not_found @ ascii ''missing.txt'')) \<and>
   all_texts example_env [ascii ''good.txt'', ascii ''missing.txt''] ! 0 \<noteq>
     spec_success_section 1 (path_name (ascii ''good.txt'')) (ascii ''hi'') \<and>
   all_texts example_env [ascii ''good.txt'', ascii ''missing.txt''] ! 1 \<noteq>
     spec_failure_section 2 (ascii ''missing.txt'') (msg_not_found @ ascii ''missing.txt'')"
  by (simp add: example_good example_missing nth_all_texts section_of_def
      success_section_def failure_section_def spec_success_section_def
      spec_failure_section_def)
     (simp add: ascii_def)

text \<open>
  C1, amended: for every list of input paths, the section of the i-th path (i counted
  from 1 in input order) is, on success, \<open>=== \<close> followed by the two characters U+6587
  U+6863, a space, i in decimal, \<open>: \<close>, the base name, \<open> ===\<close>, a newline and the
  extracted text; on failure it is \<open>=== \<close>, U+6587 U+6863, a space, i, \<open>: \<close>, the path as
  given, \<open> (\<close>, the four characters U+63D0 U+53D6 U+5931 U+8D25, \<open>: \<close>, the error message
  and \<open>) ===\<close>. The labels are the Chinese words of the source, not their English
  translations.
\<close>

theorem section_format:
  "\<forall>k<length file_paths.
     (\<forall>t. extract_text env (file_paths ! k) = Inr t \<longrightarrow>
        all_texts env file_paths ! k =
          ascii ''=== '' @ [0x6587, 0x6863] @ ascii '' '' @ str_nat (Suc k) @ ascii '': '' @
          path_name (file_paths ! k) @ ascii '' ==='' @ [0x0A] @ t) \<and>
     (\<forall>e. extract_text env (file_paths ! k) = Inl e \<longrightarrow>
        all_texts env file_paths ! k =
          ascii ''=== '' @ [0x6587, 0x6863] @ ascii '' '' @ str_nat (Suc k) @ ascii '': '' @
          file_paths ! k @ ascii '' ('' @ [0x63D0, 0x53D6, 0x5931, 0x8D25] @ ascii '': '' @
          str_exn e @ ascii '') ==='')"
  by (simp add: nth_all_texts section_of_def success_section_def failure_section_def)

text \<open>The two sections for \<open>good.txt\<close> and \<open>missing.txt\<close>, written out.\<close>

theorem section_format_witness:
  "(1::nat) < length [ascii ''good.txt'', ascii ''missing.txt''] \<and>
   extract_text example_env ([ascii ''good.txt'', ascii ''missing.txt''] ! 1) =
     Inl (FileNotFoundError (msg_not_found @ ascii ''missing.txt'')) \<and>
   all_texts example_env [ascii ''good.txt'', ascii ''missing.txt''] ! 1 =
     ascii ''=== '' @ [0x6587, 0x6863] @ ascii '' 2: missing.txt ('' @
     [0x63D0, 0x53D6, 0x5931, 0x8D25] @ ascii '': '' @
     [0x6587, 0x4EF6, 0x4E0D, 0x5B58, 0x5728] @ ascii '': missing.txt) ==='' \<and>
   (0::nat) < length [ascii ''good.txt'', ascii ''missing.txt''] \<and>
   extract_text example_env ([ascii ''good.txt'', ascii ''missing.txt''] ! 0) =
     Inr (ascii ''hi'') \<and>
   all_texts example_env [ascii ''good.txt'', ascii ''missing.txt''] ! 0 =
     ascii ''=== '' @ [0x6587, 0x6863] @ ascii '' 1: good.txt ==='' @ [0x0A] @ ascii ''hi''"
proof -
  have n: "path_name (ascii ''good.txt'') = ascii ''good.txt''"
    by (simp add: eval_example)
  have s: "str_nat (Suc 0) = ascii ''1''" "str_nat (Suc (Suc 0)) = ascii ''2''"
    by (simp_all add: str_nat.simps ascii_def)
  from section_format [of "[ascii ''good.txt'', ascii ''missing.txt'']" example_env]
  show ?thesis
    by (simp add: example_missing example_good n s All_less_Suc numeral_2_eq_2)
       (simp add: ascii_def msg_not_found_def)
qed

text \<open>
  C5: for every list of input paths, \<open>extract_from_multiple\<close> returns the sections joined
  by a blank line, exactly one section per path and in input order: the result is empty
  for no path, the one section for one path, and for every further path the result so
  far, followed by \<open>\n\n\<close> and the section of that path under the next index. When
  \<open>extract_text\<close> fails on a path, the error is caught and recorded in the section of
  that path, and the paths after it still get their sections. The function has no
  failing outcome, because the handler catches every \<open>Exception\<close>.
\<close>

theorem batch_fail_soft:
  "length (all_texts env file_paths) = length file_paths \<and>
   extract_from_multiple env file_paths = py_join [0x0A, 0x0A] (all_texts env file_paths) \<and>
   (\<forall>k<length file_paths.
      all_texts env file_paths ! k = section_of env (Suc k) (file_paths ! k) \<and>
      (\<forall>e. extract_text env (file_paths ! k) = Inl e \<longrightarrow>
           all_texts env file_paths ! k =
             failure_section (Suc k) (file_paths ! k) (str_exn e))) \<and>
   extract_from_multiple env [] = [] \<and>
   extract_from_multiple env [p] = section_of env 1 p \<and>
   extract_from_multiple env [p, q] =
     section_of env 1 p @ [0x0A, 0x0A] @ section_of env 2 q \<and>
   (file_paths \<noteq> [] \<longrightarrow>
      extract_from_multiple env (file_paths @ [q]) =
        extract_from_multiple env file_paths @ [0x0A, 0x0A] @
        section_of env (Suc (length file_paths)) q)"
proof -
  have "extract_from_multiple env (file_paths @ [q]) =
          extract_from_multiple env file_paths @ [0x0A, 0x0A] @
          section_of env (Suc (length file_paths)) q"
    if "file_paths \<noteq> []"
  proof -
    from that have "all_texts env file_paths \<noteq> []"
      using length_all_texts [of env file_paths] by auto
    then show ?thesis
      by (simp add: extract_from_multiple_def all_texts_snoc py_join_snoc)
  qed
  moreover have "extract_from_multiple env [] = []"
    "extract_from_multiple env [p] = section_of env 1 p"
    "extract_from_multiple env [p, q] = section_of env 1 p @ [0x0A, 0x0A] @ section_of env 2 q"
    by (simp_all add: extract_from_multiple_def all_texts_enumerate numeral_2_eq_2)
  ultimately show ?thesis
    by (simp add: length_all_texts nth_all_texts extract_from_multiple_def section_of_def)
qed

text \<open>
  A batch whose first path is missing: its section records the failure, the second path
  is still extracted, and the returned string is the two sections with a blank line
  between them.
\<close>

theorem batch_fail_soft_witness:
  "(0::nat) < length [ascii ''missing.txt'', ascii ''good.txt''] \<and>
   extract_text example_env ([ascii ''missing.txt'', ascii ''good.txt''] ! 0) =
     Inl (FileNotFoundError (msg_not_found @ ascii ''missing.txt'')) \<and>
   all_texts example_env [ascii ''missing.txt'', ascii ''good.txt''] ! 0 =
     failure_section 1 (ascii ''missing.txt'') (msg_not_found @ ascii ''missing.txt'') \<and>
   length (all_texts example_env [ascii ''missing.txt'', ascii ''good.txt'']) = 2 \<and>
   all_texts example_env [ascii ''missing.txt'', ascii ''good.txt''] ! 1 =
     success_section 2 (ascii ''good.txt'') (ascii ''hi'') \<and>
   extract_from_multiple example_env [ascii ''missing.txt'', ascii ''good.txt''] =
     ascii ''=== '' @ [0x6587, 0x6863] @ ascii '' 1: missing.txt ('' @
     [0x63D0, 0x53D6, 0x5931, 0x8D25] @ ascii '': '' @
     [0x6587, 0x4EF6, 0x4E0D, 0x5B58, 0x5728] @ ascii '': missing.txt) ==='' @
     [0x0A, 0x0A] @
     ascii ''=== '' @ [0x6587, 0x6863] @ ascii '' 2: good.txt ==='' @ [0x0A] @ ascii ''hi''"
proof -
  have n: "path_name (ascii ''good.txt'') = ascii ''good.txt''"
    by (simp add: eval_example)
  have s: "str_nat (Suc 0) = ascii ''1''" "str_nat (Suc (Suc 0)) = ascii ''2''"
    by (simp_all add: str_nat.simps ascii_def)
  have f: "failure_section (Suc 0) (ascii ''missing.txt'')
        (msg_not_found @ ascii ''missing.txt'') =
      ascii ''=== '' @ [0x6587, 0x6863] @ ascii '' 1: missing.txt ('' @
      [0x63D0, 0x53D6, 0x5931, 0x8D25] @ ascii '': '' @
      [0x6587, 0x4EF6, 0x4E0D, 0x5B58, 0x5728] @ ascii '': missing.txt) ===''"
    by (simp add: failure_section_def s msg_not_found_def) (simp add: ascii_def)
  have g: "success_section 2 (ascii ''good.txt'') (ascii ''hi'') =
      ascii ''=== '' @ [0x6587, 0x6863] @ ascii '' 2: good.txt ==='' @ [0x0A] @ ascii ''hi''"
    by (simp add: success_section_def s numeral_2_eq_2) (simp add: ascii_def)
  note batch = batch_fail_soft
    [of example_env "[ascii ''missing.txt'', ascii ''good.txt'']"
      "ascii ''missing.txt''" "ascii ''good.txt''"]
  from batch
  have sections: "all_texts example_env [ascii ''missing.txt'', ascii ''good.txt''] ! 0 =
      section_of example_env 1 (ascii ''missing.txt'')"
    "length (all_texts example_env [ascii ''missing.txt'', ascii ''good.txt'']) = 2"
    "all_texts example_env [ascii ''missing.txt'', ascii ''good.txt''] ! 1 =
      section_of example_env 2 (ascii ''good.txt'')"
    by (simp_all add: All_less_Suc numeral_2_eq_2)
  from batch
  have joined: "extract_from_multiple example_env [ascii ''missing.txt'', ascii ''good.txt''] =
      section_of example_env 1 (ascii ''missing.txt'') @ [0x0A, 0x0A] @
      section_of example_env 2 (ascii ''good.txt'')"
    by blast
  from sections joined show ?thesis
    by (simp add: section_of_def example_missing example_good n f g)
qed

text \<open>
  C6 as the specification words it, refuted on the example file system at \<open>long_name\<close>:
  the path references no file, and \<open>extract_text\<close> does not fail with
  \<open>FileNotFoundError\<close>; it leaves with the \<open>OSError\<close> that \<open>path.exists()\<close> raises for a
  name that is too long.
\<close>

theorem long_name_counterexample:
  "map_of example_files long_name = None \<and>
   path_exists example_env long_name =
     Inl (OSError (ascii ''[Errno 36] File name too long: '' @ quoted long_name)) \<and>
   extract_text example_env long_name =
     Inl (OSError (ascii ''[Errno 36] File name too long: '' @ quoted long_name)) \<and>
   extract_text example_env long_name \<noteq>
     Inl (FileNotFoundError (msg_not_found @ long_name))"
  by (simp add: long_name_absent example_long_name)
     (simp add: example_env_def example_stat_def long_name_too_long)

text \<open>
  C6, amended: for every path for which the existence check \<open>Path(path).exists()\<close>
  answers \<open>False\<close>, \<open>extract_text\<close> fails with \<open>FileNotFoundError\<close>, whatever the
  extension of the path is; in particular such a path with an unsupported extension is
  reported as not found, not as unsupported. When the existence check itself raises,
  its error leaves \<open>extract_text\<close> unchanged.
\<close>

theorem missing_path_not_found:
  "(path_exists env file_path = Inr False \<longrightarrow>
      extract_text env file_path = Inl (FileNotFoundError (msg_not_found @ file_path))) \<and>
   (\<forall>e. path_exists env file_path = Inl e \<longrightarrow> extract_text env file_path = Inl e)"
  by (simp add: extract_text_def)

text \<open>
  A missing path with an extension that is not supported is reported as not found, and
  the error of the existence check on \<open>long_name\<close> is passed on.
\<close>

theorem missing_path_not_found_witness:
  "path_exists example_env (ascii ''missing.docx'') = Inr False \<and>
   str_lower example_env (path_suffix (ascii ''missing.docx'')) \<notin> SUPPORTED_EXTENSIONS \<and>
   extract_text example_env (ascii ''missing.docx'') =
     Inl (FileNotFoundError (msg_not_found @ ascii ''missing.docx'')) \<and>
   path_exists example_env long_name =
     Inl (OSError (ascii ''[Errno 36] File name too long: '' @ quoted long_name)) \<and>
   extract_text example_env long_name =
     Inl (OSError (ascii ''[Errno 36] File name too long: '' @ quoted long_name))"
proof -
  have m: "path_exists example_env (ascii ''missing.docx'') = Inr False"
    by (simp add: eval_example)
  have u: "str_lower example_env (path_suffix (ascii ''missing.docx'')) \<notin> SUPPORTED_EXTENSIONS"
    by (simp add: eval_example)
  have l: "path_exists example_env long_name =
      Inl (OSError (ascii ''[Errno 36] File name too long: '' @ quoted long_name))"
    by (simp add: example_env_def example_stat_def long_name_too_long)
  from missing_path_not_found [of example_env "ascii ''missing.docx''"]
    missing_path_not_found [of example_env long_name] m u l
  show ?thesis by simp
qed

text \<open>
  C7 as the specification words it, refuted on the example file system at
  \<open>locked/report.docx\<close>: the file exists and its lower-cased extension \<open>.docx\<close> is not
  supported, and \<open>extract_text\<close> does not fail with the error for an unsupported format;
  it leaves with the \<open>PermissionError\<close> that \<open>path.exists()\<close> raises, before the
  extension is read.
\<close>

theorem locked_file_counterexample:
  "map_of example_files (ascii ''locked/report.docx'') = Some [0x50, 0x4B] \<and>
   str_lower example_env (path_suffix (ascii ''locked/report.docx'')) = ascii ''.docx'' \<and>
   ascii ''.docx'' \<notin> SUPPORTED_EXTENSIONS \<and>
   extract_text example_env (ascii ''locked/report.docx'') =
     Inl (OSError (ascii ''[Errno 13] Permission denied: '' @
                   quoted (ascii ''locked/report.docx''))) \<and>
   extract_text example_env (ascii ''locked/report.docx'') \<noteq>
     Inl (ValueError (msg_unsupported @ ascii ''.docx''))"
  by (simp add: extract_text_def eval_example)

text \<open>
  C7, amended: for every path for which the existence check \<open>Path(path).exists()\<close>
  answers \<open>True\<close> and whose lower-cased extension is not one of \<open>.pdf\<close>, \<open>.md\<close>,
  \<open>.markdown\<close> and \<open>.txt\<close>, \<open>extract_text\<close> fails with the \<open>ValueError\<close> for an
  unsupported format; and the outcome of the dispatch depends on the extension only
  through its lower-cased form: two such paths whose extensions agree up to case are
  both rejected, or both handed to the PDF extractor, or both handed to the text decoder.
\<close>

theorem extension_dispatch:
  assumes "path_exists env p = Inr True"
  shows "(str_lower env (path_suffix p) \<notin> SUPPORTED_EXTENSIONS \<longrightarrow>
            extract_text env p =
              Inl (ValueError (msg_unsupported @ str_lower env (path_suffix p)))) \<and>
         (path_exists env q = Inr True \<and>
          str_lower env (path_suffix q) = str_lower env (path_suffix p) \<longrightarrow>
            (str_lower env (path_suffix p) \<notin> SUPPORTED_EXTENSIONS \<and>
             extract_text env p =
               Inl (ValueError (msg_unsupported @ str_lower env (path_suffix p))) \<and>
             extract_text env q =
               Inl (ValueError (msg_unsupported @ str_lower env (path_suffix p)))) \<or>
            (str_lower env (path_suffix p) = ascii ''.pdf'' \<and>
             extract_text env p = extract_from_pdf env p \<and>
             extract_text env q = extract_from_pdf env q) \<or>
            (str_lower env (path_suffix p) \<in> {ascii ''.md'', ascii ''.markdown'', ascii ''.txt''} \<and>
             extract_text env p = read_text_with_fallback env p \<and>
             extract_text env q = read_text_with_fallback env q))"
  using assms
  by (auto simp: extract_text_def Let_def extract_from_md_def extract_from_txt_def
      SUPPORTED_EXTENSIONS_def)

text \<open>
  \<open>report.docx\<close> and \<open>OLD.DOCX\<close> are both found by the existence check and are rejected
  with the same error.
\<close>

theorem extension_dispatch_witness:
  "path_exists example_env (ascii ''report.docx'') = Inr True \<and>
   path_exists example_env (ascii ''OLD.DOCX'') = Inr True \<and>
   str_lower example_env (path_suffix (ascii ''report.docx'')) = ascii ''.docx'' \<and>
   str_lower example_env (path_suffix (ascii ''OLD.DOCX'')) = ascii ''.docx'' \<and>
   ascii ''.docx'' \<notin> SUPPORTED_EXTENSIONS \<and>
   extract_text example_env (ascii ''report.docx'') =
     Inl (ValueError (msg_unsupported @ ascii ''.docx'')) \<and>
   extract_text example_env (ascii ''OLD.DOCX'') =
     Inl (ValueError (msg_unsupported @ ascii ''.docx''))"
proof -
  have e: "path_exists example_env (ascii ''report.docx'') = Inr True"
    "path_exists example_env (ascii ''OLD.DOCX'') = Inr True"
    by (simp_all add: eval_example)
  have l: "str_lower example_env (path_suffix (ascii ''report.docx'')) = ascii ''.docx''"
    "str_lower example_env (path_suffix (ascii ''OLD.DOCX'')) = ascii ''.docx''"
    by (simp_all add: eval_example)
  have u: "ascii ''.docx'' \<notin> SUPPORTED_EXTENSIONS"
    "ascii ''.docx'' \<noteq> ascii ''.pdf''"
    "ascii ''.docx'' \<notin> {ascii ''.md'', ascii ''.markdown'', ascii ''.txt''}"
    by (simp_all add: eval_example)
  from extension_dispatch [OF e(1), of "ascii ''OLD.DOCX''"] e l u show ?thesis
    by simp
qed

section \<open>Claims about the text decoder\<close>

text \<open>
  C8: for every byte buffer that is valid UTF-8, the text decoder returns exactly its
  strict UTF-8 decoding, and it does so whatever the two detectors are: they are not
  consulted.
\<close>

theorem valid_utf8_returned:
  assumes "read_bytes env file_path = Inr data" and "utf8_strict env data = Some s"
  shows "read_text_with_fallback (env\<lparr>charset_normalizer := a, chardet := b\<rparr>) file_path = Inr s"
  using assms by (simp add: read_text_with_fallback_def)

text \<open>
  \<open>notes.MD\<close> holds the UTF-8 bytes of U+00E9; a first detector that would answer
  \<open>latin-1\<close> has no effect on the result.
\<close>

theorem valid_utf8_returned_witness:
  "read_bytes example_env (ascii ''notes.MD'') = Inr [0xC3, 0xA9] \<and>
   utf8_strict example_env [0xC3, 0xA9] = Some [0xE9] \<and>
   read_text_with_fallback
     (example_env\<lparr>charset_normalizer := Some (\<lambda>data. Inr (Some (ascii ''latin-1''))),
                  chardet := None\<rparr>) (ascii ''notes.MD'') = Inr [0xE9]"
proof -
  have r: "read_bytes example_env (ascii ''notes.MD'') = Inr [0xC3, 0xA9]"
    by (simp add: eval_example)
  have d: "utf8_strict example_env [0xC3, 0xA9] = Some [0xE9]"
    by (simp add: example_env_def is_cont_def emit_def low6_def)
  from valid_utf8_returned [OF r d] r d show ?thesis by simp
qed

text \<open>
  C9: for every byte buffer that is not valid UTF-8, when neither detector yields an
  encoding label (it is not installed, or raises, or reports nothing), the text decoder
  returns the UTF-8 decoding with U+FFFD in place of the undecodable sequences; it does
  not fail.
\<close>

theorem lossy_utf8_fallback:
  assumes "read_bytes env file_path = Inr data" and "utf8_strict env data = None"
    and "no_label (charset_normalizer env) data" and "no_label (chardet env) data"
  shows "read_text_with_fallback env file_path = Inr (utf8_replace env data)"
  using assms
  by (simp add: read_text_with_fallback_def no_label_charset_normalizer no_label_chardet
      label_or_falsy decode_replace_def)

text \<open>\<open>latin.txt\<close> holds \<open>0xFF\<close> and \<open>A\<close>; the result is U+FFFD followed by \<open>A\<close>.\<close>

theorem lossy_utf8_fallback_witness:
  "read_bytes example_env (ascii ''latin.txt'') = Inr [0xFF, 0x41] \<and>
   utf8_strict example_env [0xFF, 0x41] = None \<and>
   no_label (charset_normalizer example_env) [0xFF, 0x41] \<and>
   no_label (chardet example_env) [0xFF, 0x41] \<and>
   utf8_replace example_env [0xFF, 0x41] = [0xFFFD, 0x41] \<and>
   read_text_with_fallback example_env (ascii ''latin.txt'') = Inr [0xFFFD, 0x41]"
proof -
  have r: "read_bytes example_env (ascii ''latin.txt'') = Inr [0xFF, 0x41]"
    by (simp add: eval_example)
  have d: "utf8_strict example_env [0xFF, 0x41] = None"
    by (simp add: example_env_def bad_def)
  have n: "no_label (charset_normalizer example_env) [0xFF, 0x41]"
    "no_label (chardet example_env) [0xFF, 0x41]"
    by (simp_all add: example_env_def no_label_def)
  have u: "utf8_replace example_env [0xFF, 0x41] = [0xFFFD, 0x41]"
    by (simp add: example_env_def bad_def emit_def)
  from lossy_utf8_fallback [OF r d n] r d n u show ?thesis by simp
qed

end
